theory Spec2Isabelle
  imports Complex_Main
begin

section \<open>The scenario graph editor of scenario_editor.js\<close>

text \<open>
  The class ScenarioEditor of src/frontend/js/scenario_editor.js keeps a list of node
  objects, a list of connections and a viewport (scale, panX, panY), and changes them
  from event handlers. The handlers are modelled as functions from the editor's fields
  to the editor's fields.

  Numbers. JavaScript numbers are IEEE doubles. Coordinates and the scale are modelled
  as exact reals, so rounding, NaN and the infinities are outside the model; node ids
  (Date.now() readings and integer literals) are modelled as integers, on which the
  strict comparisons of the source are exact.

  Objects. A node is an object, and the array nodes holds references to objects:
  indexOf compares references, not contents. The model keeps a store from references
  to node contents and a list of references. The store is total: the references from
  next_ref on are not allocated yet, and no operation reads them in a state built by
  the operations below.

  Output. draw, updateStats and showNodeProperties write to the canvas and the page and
  assign no field of the editor read by the modelled operations; they are left out.
  VRARPlatform.showNotification (app.js) appends an element to the page; it is modelled
  as appending the pair (message, severity) to a log.
\<close>

subsection \<open>JavaScript values and property lookup\<close>

datatype jsval =
    JNum int
  | JStr string
  | JBool bool
  | JArr "jsval list"
  | JObj "(string \<times> jsval) list"
  | JProto string

text \<open>
  \<open>JProto k\<close> stands for the member named \<open>k\<close> that every object literal inherits from
  Object.prototype (a function, or for \<open>__proto__\<close> the prototype object itself). The
  names are those of ECMAScript, with the web-browser annex.
\<close>

definition object_prototype_names :: "string list" where
  "object_prototype_names =
     [''constructor'', ''hasOwnProperty'', ''isPrototypeOf'', ''propertyIsEnumerable'',
      ''toLocaleString'', ''toString'', ''valueOf'', ''__proto__'',
      ''__defineGetter__'', ''__defineSetter__'', ''__lookupGetter__'', ''__lookupSetter__'']"

text \<open>
  \<open>literal[key]\<close> for an object literal whose own properties are strings: the own
  property when there is one, else the inherited member, else undefined (None).
\<close>

definition get_property :: "(string \<times> string) list \<Rightarrow> string \<Rightarrow> jsval option" where
  "get_property literal key =
     (case map_of literal key of
        Some s \<Rightarrow> Some (JStr s)
      | None \<Rightarrow> if key \<in> set object_prototype_names then Some (JProto key) else None)"

text \<open>ToBoolean: the empty string, zero and false are falsy; every object is truthy.\<close>

fun truthy :: "jsval \<Rightarrow> bool" where
  "truthy (JNum n) = (n \<noteq> 0)"
| "truthy (JStr s) = (s \<noteq> [])"
| "truthy (JBool b) = b"
| "truthy (JArr vs) = True"
| "truthy (JObj kvs) = True"
| "truthy (JProto k) = True"

text \<open>\<open>a || b\<close> where \<open>a\<close> is a property read: undefined is falsy.\<close>

definition or_else :: "jsval option \<Rightarrow> jsval \<Rightarrow> jsval" where
  "or_else a b = (case a of None \<Rightarrow> b | Some v \<Rightarrow> if truthy v then v else b)"

subsection \<open>String literals of the source\<close>

text \<open>
  The titles of the source are Russian words. A string is a list of bytes here, so each
  literal is written as its UTF-8 bytes; the comment gives the code points.
\<close>

definition title_state :: string where
  \<comment> \<open>U+0421 U+043E U+0441 U+0442 U+043E U+044F U+043D U+0438 U+0435\<close>
  "title_state = [CHR 0xD0, CHR 0xA1, CHR 0xD0, CHR 0xBE, CHR 0xD1, CHR 0x81, CHR 0xD1, CHR 0x82,
     CHR 0xD0, CHR 0xBE, CHR 0xD1, CHR 0x8F, CHR 0xD0, CHR 0xBD, CHR 0xD0, CHR 0xB8, CHR 0xD0, CHR 0xB5]"

definition title_action :: string where
  \<comment> \<open>U+0414 U+0435 U+0439 U+0441 U+0442 U+0432 U+0438 U+0435\<close>
  "title_action = [CHR 0xD0, CHR 0x94, CHR 0xD0, CHR 0xB5, CHR 0xD0, CHR 0xB9, CHR 0xD1, CHR 0x81,
     CHR 0xD1, CHR 0x82, CHR 0xD0, CHR 0xB2, CHR 0xD0, CHR 0xB8, CHR 0xD0, CHR 0xB5]"

definition title_condition :: string where
  \<comment> \<open>U+0423 U+0441 U+043B U+043E U+0432 U+0438 U+0435\<close>
  "title_condition = [CHR 0xD0, CHR 0xA3, CHR 0xD1, CHR 0x81, CHR 0xD0, CHR 0xBB, CHR 0xD0, CHR 0xBE,
     CHR 0xD0, CHR 0xB2, CHR 0xD0, CHR 0xB8, CHR 0xD0, CHR 0xB5]"

definition title_event :: string where
  \<comment> \<open>U+0421 U+043E U+0431 U+044B U+0442 U+0438 U+0435\<close>
  "title_event = [CHR 0xD0, CHR 0xA1, CHR 0xD0, CHR 0xBE, CHR 0xD0, CHR 0xB1, CHR 0xD1, CHR 0x8B,
     CHR 0xD1, CHR 0x82, CHR 0xD0, CHR 0xB8, CHR 0xD0, CHR 0xB5]"

definition title_start :: string where
  \<comment> \<open>U+0421 U+0442 U+0430 U+0440 U+0442\<close>
  "title_start = [CHR 0xD0, CHR 0xA1, CHR 0xD1, CHR 0x82, CHR 0xD0, CHR 0xB0, CHR 0xD1, CHR 0x80,
     CHR 0xD1, CHR 0x82]"

definition title_end :: string where
  \<comment> \<open>U+041A U+043E U+043D U+0435 U+0446\<close>
  "title_end = [CHR 0xD0, CHR 0x9A, CHR 0xD0, CHR 0xBE, CHR 0xD0, CHR 0xBD, CHR 0xD0, CHR 0xB5,
     CHR 0xD1, CHR 0x86]"

definition title_fallback :: string where
  \<comment> \<open>U+0423 U+0437 U+0435 U+043B, the fallback of getNodeTitle\<close>
  "title_fallback = [CHR 0xD0, CHR 0xA3, CHR 0xD0, CHR 0xB7, CHR 0xD0, CHR 0xB5, CHR 0xD0, CHR 0xBB]"

subsection \<open>Nodes, connections and the editor\<close>

type_synonym ref = nat

record node =
  n_id :: int
  n_type :: string
  n_x :: real
  n_y :: real
  n_width :: real
  n_height :: real
  n_title :: jsval
  n_color :: jsval
  n_properties :: "(string \<times> jsval) list"

record connection =
  c_from :: int
  c_to :: int
  c_color :: string
  c_dashed :: bool

record editor =
  heap :: "ref \<Rightarrow> node"
  next_ref :: ref
  nodes :: "ref list"
  connections :: "connection list"
  scale :: real
  panX :: real
  panY :: real
  lastPinchDistance :: "real option"
  notifications :: "(string \<times> string) list"

text \<open>
  The fields carry a prefix where the source's name (id, type, x, from, to) is taken in
  HOL or would hide a variable. lastPinchDistance is not assigned by the constructor:
  it is undefined (None) until the first pinch.
\<close>

subsection \<open>Titles, colors and default properties\<close>

definition titles :: "(string \<times> string) list" where
  "titles = [(''state'', title_state), (''action'', title_action),
     (''condition'', title_condition), (''event'', title_event),
     (''start'', title_start), (''end'', title_end)]"

definition getNodeTitle :: "string \<Rightarrow> jsval" where
  "getNodeTitle type = or_else (get_property titles type) (JStr title_fallback)"

definition colors :: "(string \<times> string) list" where
  "colors = [(''state'', ''#3498db''), (''action'', ''#2ecc71''),
     (''condition'', ''#f39c12''), (''event'', ''#9b59b6''),
     (''start'', ''#27ae60''), (''end'', ''#e74c3c'')]"

definition getNodeColor :: "string \<Rightarrow> jsval" where
  "getNodeColor type = or_else (get_property colors type) (JStr ''#95a5a6'')"

text \<open>
  getDefaultProperties reads the clock for the id of the property bag: \<open>now\<close> is that
  reading. The spread of baseProps followed by new keys is the list with the keys
  appended, since no new key is a key of baseProps.
\<close>

definition getDefaultProperties :: "int \<Rightarrow> string \<Rightarrow> (string \<times> jsval) list" where
  "getDefaultProperties now type =
     (let baseProps = [(''id'', JNum now), (''name'', getNodeTitle type),
                       (''description'', JStr ''''), (''enabled'', JBool True)]
      in if type = ''state'' then
           baseProps @ [(''transitions'', JArr []), (''onEnter'', JStr ''''),
                        (''onExit'', JStr ''''), (''onUpdate'', JStr ''''),
                        (''isInitial'', JBool (type = ''start''))]
         else if type = ''action'' then
           baseProps @ [(''actionType'', JStr ''custom''), (''parameters'', JObj []),
                        (''delay'', JNum 0), (''repeat'', JNum 1)]
         else if type = ''condition'' then
           baseProps @ [(''conditionType'', JStr ''boolean''), (''expression'', JStr ''''),
                        (''trueState'', JStr ''''), (''falseState'', JStr '''')]
         else if type = ''event'' then
           baseProps @ [(''eventType'', JStr ''custom''), (''trigger'', JStr ''''),
                        (''targetState'', JStr ''''), (''data'', JObj [])]
         else baseProps)"

subsection \<open>Adding, finding and removing nodes\<close>

text \<open>
  addNode reads the clock twice: \<open>now\<close> is the reading for the node's id and \<open>now'\<close>
  the later one, inside getDefaultProperties. The new object gets the next free
  reference and is pushed at the end of the array.
\<close>

definition addNode :: "int \<Rightarrow> int \<Rightarrow> string \<Rightarrow> real \<Rightarrow> real \<Rightarrow> editor \<Rightarrow> editor" where
  "addNode now now' type x y ed =
     (let node = \<lparr> n_id = now, n_type = type, n_x = x, n_y = y,
                   n_width = 120, n_height = 80,
                   n_title = getNodeTitle type,
                   n_color = getNodeColor type,
                   n_properties = getDefaultProperties now' type \<rparr>;
          r = next_ref ed
      in ed\<lparr> heap := (heap ed)(r := node), next_ref := Suc r, nodes := nodes ed @ [r] \<rparr>)"

text \<open>
  getNodeAt walks the array from the last index down to 0 and returns the first node
  whose rectangle holds the point; \<open>getNodeAt_from ed x y k\<close> is the loop with
  \<open>k = i + 1\<close> indices left.
\<close>

fun getNodeAt_from :: "editor \<Rightarrow> real \<Rightarrow> real \<Rightarrow> nat \<Rightarrow> ref option" where
  "getNodeAt_from ed x y 0 = None"
| "getNodeAt_from ed x y (Suc i) =
     (let node = heap ed (nodes ed ! i)
      in if x \<ge> n_x node \<and> x \<le> n_x node + n_width node \<and>
            y \<ge> n_y node \<and> y \<le> n_y node + n_height node
         then Some (nodes ed ! i)
         else getNodeAt_from ed x y i)"

definition getNodeAt :: "editor \<Rightarrow> real \<Rightarrow> real \<Rightarrow> ref option" where
  "getNodeAt ed x y = getNodeAt_from ed x y (length (nodes ed))"

text \<open>Array.prototype.indexOf: the first index holding the value, None for -1.\<close>

fun indexOf :: "'a list \<Rightarrow> 'a \<Rightarrow> nat option" where
  "indexOf [] v = None"
| "indexOf (a # as) v = (if a = v then Some 0 else map_option Suc (indexOf as v))"

text \<open>\<open>xs.splice(index, 1)\<close>: the array without the element at \<open>index\<close>.\<close>

definition splice1 :: "nat \<Rightarrow> 'a list \<Rightarrow> 'a list" where
  "splice1 index xs = take index xs @ drop (Suc index) xs"

definition removeNode :: "ref \<Rightarrow> editor \<Rightarrow> editor" where
  "removeNode node ed =
     (case indexOf (nodes ed) node of
        None \<Rightarrow> ed
      | Some index \<Rightarrow>
          (let ed1 = ed\<lparr> nodes := splice1 index (nodes ed) \<rparr>
           in ed1\<lparr> connections :=
                  filter (\<lambda>conn. c_from conn \<noteq> n_id (heap ed1 node) \<and>
                                 c_to conn \<noteq> n_id (heap ed1 node))
                         (connections ed1) \<rparr>))"

subsection \<open>Notifications and their texts\<close>

definition msg_save_empty :: string where
  \<comment> \<open>the warning of saveScenario on an empty workspace:
     U+041D U+0435 U+0442 U+0020 U+0434 U+0430 U+043D U+043D U+044B U+0445 U+0020 U+0434
     U+043B U+044F U+0020 U+0441 U+043E U+0445 U+0440 U+0430 U+043D U+0435 U+043D U+0438
     U+044F\<close>
  "msg_save_empty = [CHR 0xD0, CHR 0x9D, CHR 0xD0, CHR 0xB5, CHR 0xD1, CHR 0x82, CHR 0x20, CHR 0xD0,
     CHR 0xB4, CHR 0xD0, CHR 0xB0, CHR 0xD0, CHR 0xBD, CHR 0xD0, CHR 0xBD, CHR 0xD1,
     CHR 0x8B, CHR 0xD1, CHR 0x85, CHR 0x20, CHR 0xD0, CHR 0xB4, CHR 0xD0, CHR 0xBB,
     CHR 0xD1, CHR 0x8F, CHR 0x20, CHR 0xD1, CHR 0x81, CHR 0xD0, CHR 0xBE, CHR 0xD1,
     CHR 0x85, CHR 0xD1, CHR 0x80, CHR 0xD0, CHR 0xB0, CHR 0xD0, CHR 0xBD, CHR 0xD0,
     CHR 0xB5, CHR 0xD0, CHR 0xBD, CHR 0xD0, CHR 0xB8, CHR 0xD1, CHR 0x8F]"

definition msg_saving :: string where
  \<comment> \<open>saveScenario, before the wait:
     U+0421 U+043E U+0445 U+0440 U+0430 U+043D U+0435 U+043D U+0438 U+0435 U+0020 U+0441
     U+0446 U+0435 U+043D U+0430 U+0440 U+0438 U+044F U+002E U+002E U+002E\<close>
  "msg_saving = [CHR 0xD0, CHR 0xA1, CHR 0xD0, CHR 0xBE, CHR 0xD1, CHR 0x85, CHR 0xD1, CHR 0x80,
     CHR 0xD0, CHR 0xB0, CHR 0xD0, CHR 0xBD, CHR 0xD0, CHR 0xB5, CHR 0xD0, CHR 0xBD,
     CHR 0xD0, CHR 0xB8, CHR 0xD0, CHR 0xB5, CHR 0x20, CHR 0xD1, CHR 0x81, CHR 0xD1,
     CHR 0x86, CHR 0xD0, CHR 0xB5, CHR 0xD0, CHR 0xBD, CHR 0xD0, CHR 0xB0, CHR 0xD1,
     CHR 0x80, CHR 0xD0, CHR 0xB8, CHR 0xD1, CHR 0x8F, CHR 0x2E, CHR 0x2E, CHR 0x2E]"

definition msg_saved :: string where
  \<comment> \<open>saveScenario, after the wait:
     U+0421 U+0446 U+0435 U+043D U+0430 U+0440 U+0438 U+0439 U+0020 U+0441 U+043E U+0445
     U+0440 U+0430 U+043D U+0435 U+043D U+0020 U+0443 U+0441 U+043F U+0435 U+0448 U+043D
     U+043E\<close>
  "msg_saved = [CHR 0xD0, CHR 0xA1, CHR 0xD1, CHR 0x86, CHR 0xD0, CHR 0xB5, CHR 0xD0, CHR 0xBD,
     CHR 0xD0, CHR 0xB0, CHR 0xD1, CHR 0x80, CHR 0xD0, CHR 0xB8, CHR 0xD0, CHR 0xB9,
     CHR 0x20, CHR 0xD1, CHR 0x81, CHR 0xD0, CHR 0xBE, CHR 0xD1, CHR 0x85, CHR 0xD1,
     CHR 0x80, CHR 0xD0, CHR 0xB0, CHR 0xD0, CHR 0xBD, CHR 0xD0, CHR 0xB5, CHR 0xD0,
     CHR 0xBD, CHR 0x20, CHR 0xD1, CHR 0x83, CHR 0xD1, CHR 0x81, CHR 0xD0, CHR 0xBF,
     CHR 0xD0, CHR 0xB5, CHR 0xD1, CHR 0x88, CHR 0xD0, CHR 0xBD, CHR 0xD0, CHR 0xBE]"

definition msg_run_empty :: string where
  \<comment> \<open>the warning of runScenario on an empty workspace:
     U+041D U+0435 U+0442 U+0020 U+0441 U+0446 U+0435 U+043D U+0430 U+0440 U+0438 U+044F
     U+0020 U+0434 U+043B U+044F U+0020 U+0437 U+0430 U+043F U+0443 U+0441 U+043A U+0430\<close>
  "msg_run_empty = [CHR 0xD0, CHR 0x9D, CHR 0xD0, CHR 0xB5, CHR 0xD1, CHR 0x82, CHR 0x20, CHR 0xD1,
     CHR 0x81, CHR 0xD1, CHR 0x86, CHR 0xD0, CHR 0xB5, CHR 0xD0, CHR 0xBD, CHR 0xD0,
     CHR 0xB0, CHR 0xD1, CHR 0x80, CHR 0xD0, CHR 0xB8, CHR 0xD1, CHR 0x8F, CHR 0x20,
     CHR 0xD0, CHR 0xB4, CHR 0xD0, CHR 0xBB, CHR 0xD1, CHR 0x8F, CHR 0x20, CHR 0xD0,
     CHR 0xB7, CHR 0xD0, CHR 0xB0, CHR 0xD0, CHR 0xBF, CHR 0xD1, CHR 0x83, CHR 0xD1,
     CHR 0x81, CHR 0xD0, CHR 0xBA, CHR 0xD0, CHR 0xB0]"

definition msg_running :: string where
  \<comment> \<open>runScenario, before the wait:
     U+0417 U+0430 U+043F U+0443 U+0441 U+043A U+0020 U+0441 U+0446 U+0435 U+043D U+0430
     U+0440 U+0438 U+044F U+002E U+002E U+002E\<close>
  "msg_running = [CHR 0xD0, CHR 0x97, CHR 0xD0, CHR 0xB0, CHR 0xD0, CHR 0xBF, CHR 0xD1, CHR 0x83,
     CHR 0xD1, CHR 0x81, CHR 0xD0, CHR 0xBA, CHR 0x20, CHR 0xD1, CHR 0x81, CHR 0xD1,
     CHR 0x86, CHR 0xD0, CHR 0xB5, CHR 0xD0, CHR 0xBD, CHR 0xD0, CHR 0xB0, CHR 0xD1,
     CHR 0x80, CHR 0xD0, CHR 0xB8, CHR 0xD1, CHR 0x8F, CHR 0x2E, CHR 0x2E, CHR 0x2E]"

definition msg_ran :: string where
  \<comment> \<open>runScenario, after the wait:
     U+0421 U+0446 U+0435 U+043D U+0430 U+0440 U+0438 U+0439 U+0020 U+0432 U+044B U+043F
     U+043E U+043B U+043D U+0435 U+043D U+0020 U+0443 U+0441 U+043F U+0435 U+0448 U+043D
     U+043E\<close>
  "msg_ran = [CHR 0xD0, CHR 0xA1, CHR 0xD1, CHR 0x86, CHR 0xD0, CHR 0xB5, CHR 0xD0, CHR 0xBD,
     CHR 0xD0, CHR 0xB0, CHR 0xD1, CHR 0x80, CHR 0xD0, CHR 0xB8, CHR 0xD0, CHR 0xB9,
     CHR 0x20, CHR 0xD0, CHR 0xB2, CHR 0xD1, CHR 0x8B, CHR 0xD0, CHR 0xBF, CHR 0xD0,
     CHR 0xBE, CHR 0xD0, CHR 0xBB, CHR 0xD0, CHR 0xBD, CHR 0xD0, CHR 0xB5, CHR 0xD0,
     CHR 0xBD, CHR 0x20, CHR 0xD1, CHR 0x83, CHR 0xD1, CHR 0x81, CHR 0xD0, CHR 0xBF,
     CHR 0xD0, CHR 0xB5, CHR 0xD1, CHR 0x88, CHR 0xD0, CHR 0xBD, CHR 0xD0, CHR 0xBE]"

definition msg_validate_empty :: string where
  \<comment> \<open>the warning of validateScenario on an empty workspace:
     U+041D U+0435 U+0442 U+0020 U+0441 U+0446 U+0435 U+043D U+0430 U+0440 U+0438 U+044F
     U+0020 U+0434 U+043B U+044F U+0020 U+043F U+0440 U+043E U+0432 U+0435 U+0440 U+043A
     U+0438\<close>
  "msg_validate_empty = [CHR 0xD0, CHR 0x9D, CHR 0xD0, CHR 0xB5, CHR 0xD1, CHR 0x82, CHR 0x20, CHR 0xD1,
     CHR 0x81, CHR 0xD1, CHR 0x86, CHR 0xD0, CHR 0xB5, CHR 0xD0, CHR 0xBD, CHR 0xD0,
     CHR 0xB0, CHR 0xD1, CHR 0x80, CHR 0xD0, CHR 0xB8, CHR 0xD1, CHR 0x8F, CHR 0x20,
     CHR 0xD0, CHR 0xB4, CHR 0xD0, CHR 0xBB, CHR 0xD1, CHR 0x8F, CHR 0x20, CHR 0xD0,
     CHR 0xBF, CHR 0xD1, CHR 0x80, CHR 0xD0, CHR 0xBE, CHR 0xD0, CHR 0xB2, CHR 0xD0,
     CHR 0xB5, CHR 0xD1, CHR 0x80, CHR 0xD0, CHR 0xBA, CHR 0xD0, CHR 0xB8]"

definition msg_validating :: string where
  \<comment> \<open>validateScenario, first notification:
     U+041F U+0440 U+043E U+0432 U+0435 U+0440 U+043A U+0430 U+0020 U+0441 U+0446 U+0435
     U+043D U+0430 U+0440 U+0438 U+044F U+002E U+002E U+002E\<close>
  "msg_validating = [CHR 0xD0, CHR 0x9F, CHR 0xD1, CHR 0x80, CHR 0xD0, CHR 0xBE, CHR 0xD0, CHR 0xB2,
     CHR 0xD0, CHR 0xB5, CHR 0xD1, CHR 0x80, CHR 0xD0, CHR 0xBA, CHR 0xD0, CHR 0xB0,
     CHR 0x20, CHR 0xD1, CHR 0x81, CHR 0xD1, CHR 0x86, CHR 0xD0, CHR 0xB5, CHR 0xD0,
     CHR 0xBD, CHR 0xD0, CHR 0xB0, CHR 0xD1, CHR 0x80, CHR 0xD0, CHR 0xB8, CHR 0xD1,
     CHR 0x8F, CHR 0x2E, CHR 0x2E, CHR 0x2E]"

definition msg_missing_start :: string where
  \<comment> \<open>the issue: no start node:
     U+041E U+0442 U+0441 U+0443 U+0442 U+0441 U+0442 U+0432 U+0443 U+0435 U+0442 U+0020
     U+043D U+0430 U+0447 U+0430 U+043B U+044C U+043D U+044B U+0439 U+0020 U+0443 U+0437
     U+0435 U+043B\<close>
  "msg_missing_start = [CHR 0xD0, CHR 0x9E, CHR 0xD1, CHR 0x82, CHR 0xD1, CHR 0x81, CHR 0xD1, CHR 0x83,
     CHR 0xD1, CHR 0x82, CHR 0xD1, CHR 0x81, CHR 0xD1, CHR 0x82, CHR 0xD0, CHR 0xB2,
     CHR 0xD1, CHR 0x83, CHR 0xD0, CHR 0xB5, CHR 0xD1, CHR 0x82, CHR 0x20, CHR 0xD0,
     CHR 0xBD, CHR 0xD0, CHR 0xB0, CHR 0xD1, CHR 0x87, CHR 0xD0, CHR 0xB0, CHR 0xD0,
     CHR 0xBB, CHR 0xD1, CHR 0x8C, CHR 0xD0, CHR 0xBD, CHR 0xD1, CHR 0x8B, CHR 0xD0,
     CHR 0xB9, CHR 0x20, CHR 0xD1, CHR 0x83, CHR 0xD0, CHR 0xB7, CHR 0xD0, CHR 0xB5,
     CHR 0xD0, CHR 0xBB]"

definition msg_missing_end :: string where
  \<comment> \<open>the issue: no end node:
     U+041E U+0442 U+0441 U+0443 U+0442 U+0441 U+0442 U+0432 U+0443 U+0435 U+0442 U+0020
     U+043A U+043E U+043D U+0435 U+0447 U+043D U+044B U+0439 U+0020 U+0443 U+0437 U+0435
     U+043B\<close>
  "msg_missing_end = [CHR 0xD0, CHR 0x9E, CHR 0xD1, CHR 0x82, CHR 0xD1, CHR 0x81, CHR 0xD1, CHR 0x83,
     CHR 0xD1, CHR 0x82, CHR 0xD1, CHR 0x81, CHR 0xD1, CHR 0x82, CHR 0xD0, CHR 0xB2,
     CHR 0xD1, CHR 0x83, CHR 0xD0, CHR 0xB5, CHR 0xD1, CHR 0x82, CHR 0x20, CHR 0xD0,
     CHR 0xBA, CHR 0xD0, CHR 0xBE, CHR 0xD0, CHR 0xBD, CHR 0xD0, CHR 0xB5, CHR 0xD1,
     CHR 0x87, CHR 0xD0, CHR 0xBD, CHR 0xD1, CHR 0x8B, CHR 0xD0, CHR 0xB9, CHR 0x20,
     CHR 0xD1, CHR 0x83, CHR 0xD0, CHR 0xB7, CHR 0xD0, CHR 0xB5, CHR 0xD0, CHR 0xBB]"

definition msg_isolated :: string where
  \<comment> \<open>the head of the issue listing the isolated nodes:
     U+041D U+0430 U+0439 U+0434 U+0435 U+043D U+044B U+0020 U+0438 U+0437 U+043E U+043B
     U+0438 U+0440 U+043E U+0432 U+0430 U+043D U+043D U+044B U+0435 U+0020 U+0443 U+0437
     U+043B U+044B U+003A U+0020\<close>
  "msg_isolated = [CHR 0xD0, CHR 0x9D, CHR 0xD0, CHR 0xB0, CHR 0xD0, CHR 0xB9, CHR 0xD0, CHR 0xB4,
     CHR 0xD0, CHR 0xB5, CHR 0xD0, CHR 0xBD, CHR 0xD1, CHR 0x8B, CHR 0x20, CHR 0xD0,
     CHR 0xB8, CHR 0xD0, CHR 0xB7, CHR 0xD0, CHR 0xBE, CHR 0xD0, CHR 0xBB, CHR 0xD0,
     CHR 0xB8, CHR 0xD1, CHR 0x80, CHR 0xD0, CHR 0xBE, CHR 0xD0, CHR 0xB2, CHR 0xD0,
     CHR 0xB0, CHR 0xD0, CHR 0xBD, CHR 0xD0, CHR 0xBD, CHR 0xD1, CHR 0x8B, CHR 0xD0,
     CHR 0xB5, CHR 0x20, CHR 0xD1, CHR 0x83, CHR 0xD0, CHR 0xB7, CHR 0xD0, CHR 0xBB,
     CHR 0xD1, CHR 0x8B, CHR 0x3A, CHR 0x20]"

definition msg_valid :: string where
  \<comment> \<open>validateScenario, no issue:
     U+0421 U+0446 U+0435 U+043D U+0430 U+0440 U+0438 U+0439 U+0020 U+043F U+0440 U+043E
     U+0448 U+0435 U+043B U+0020 U+043F U+0440 U+043E U+0432 U+0435 U+0440 U+043A U+0443
     U+0020 U+0443 U+0441 U+043F U+0435 U+0448 U+043D U+043E\<close>
  "msg_valid = [CHR 0xD0, CHR 0xA1, CHR 0xD1, CHR 0x86, CHR 0xD0, CHR 0xB5, CHR 0xD0, CHR 0xBD,
     CHR 0xD0, CHR 0xB0, CHR 0xD1, CHR 0x80, CHR 0xD0, CHR 0xB8, CHR 0xD0, CHR 0xB9,
     CHR 0x20, CHR 0xD0, CHR 0xBF, CHR 0xD1, CHR 0x80, CHR 0xD0, CHR 0xBE, CHR 0xD1,
     CHR 0x88, CHR 0xD0, CHR 0xB5, CHR 0xD0, CHR 0xBB, CHR 0x20, CHR 0xD0, CHR 0xBF,
     CHR 0xD1, CHR 0x80, CHR 0xD0, CHR 0xBE, CHR 0xD0, CHR 0xB2, CHR 0xD0, CHR 0xB5,
     CHR 0xD1, CHR 0x80, CHR 0xD0, CHR 0xBA, CHR 0xD1, CHR 0x83, CHR 0x20, CHR 0xD1,
     CHR 0x83, CHR 0xD1, CHR 0x81, CHR 0xD0, CHR 0xBF, CHR 0xD0, CHR 0xB5, CHR 0xD1,
     CHR 0x88, CHR 0xD0, CHR 0xBD, CHR 0xD0, CHR 0xBE]"

definition msg_problems :: string where
  \<comment> \<open>the head of the warning listing the issues:
     U+041D U+0430 U+0439 U+0434 U+0435 U+043D U+044B U+0020 U+043F U+0440 U+043E U+0431
     U+043B U+0435 U+043C U+044B U+003A U+0020\<close>
  "msg_problems = [CHR 0xD0, CHR 0x9D, CHR 0xD0, CHR 0xB0, CHR 0xD0, CHR 0xB9, CHR 0xD0, CHR 0xB4,
     CHR 0xD0, CHR 0xB5, CHR 0xD0, CHR 0xBD, CHR 0xD1, CHR 0x8B, CHR 0x20, CHR 0xD0,
     CHR 0xBF, CHR 0xD1, CHR 0x80, CHR 0xD0, CHR 0xBE, CHR 0xD0, CHR 0xB1, CHR 0xD0,
     CHR 0xBB, CHR 0xD0, CHR 0xB5, CHR 0xD0, CHR 0xBC, CHR 0xD1, CHR 0x8B, CHR 0x3A,
     CHR 0x20]"

definition msg_cleared :: string where
  \<comment> \<open>clearWorkspace:
     U+0420 U+0430 U+0431 U+043E U+0447 U+0430 U+044F U+0020 U+043E U+0431 U+043B U+0430
     U+0441 U+0442 U+044C U+0020 U+043E U+0447 U+0438 U+0449 U+0435 U+043D U+0430\<close>
  "msg_cleared = [CHR 0xD0, CHR 0xA0, CHR 0xD0, CHR 0xB0, CHR 0xD0, CHR 0xB1, CHR 0xD0, CHR 0xBE,
     CHR 0xD1, CHR 0x87, CHR 0xD0, CHR 0xB0, CHR 0xD1, CHR 0x8F, CHR 0x20, CHR 0xD0,
     CHR 0xBE, CHR 0xD0, CHR 0xB1, CHR 0xD0, CHR 0xBB, CHR 0xD0, CHR 0xB0, CHR 0xD1,
     CHR 0x81, CHR 0xD1, CHR 0x82, CHR 0xD1, CHR 0x8C, CHR 0x20, CHR 0xD0, CHR 0xBE,
     CHR 0xD1, CHR 0x87, CHR 0xD0, CHR 0xB8, CHR 0xD1, CHR 0x89, CHR 0xD0, CHR 0xB5,
     CHR 0xD0, CHR 0xBD, CHR 0xD0, CHR 0xB0]"

text \<open>VRARPlatform.showNotification(message, type): one more entry in the log.\<close>

definition showNotification :: "string \<Rightarrow> string \<Rightarrow> editor \<Rightarrow> editor" where
  "showNotification message severity ed =
     ed\<lparr> notifications := notifications ed @ [(message, severity)] \<rparr>"

text \<open>clearWorkspace asks the user first (confirm); \<open>confirmed\<close> is the answer.\<close>

definition clearWorkspace :: "bool \<Rightarrow> editor \<Rightarrow> editor" where
  "clearWorkspace confirmed ed =
     (if \<not> confirmed then ed
      else showNotification msg_cleared ''success'' (ed\<lparr> nodes := [], connections := [] \<rparr>))"

text \<open>The fields as the constructor leaves them.\<close>

definition new_editor :: editor where
  "new_editor = \<lparr> heap = (\<lambda>r. undefined), next_ref = 0, nodes = [], connections = [],
                   scale = 1, panX = 0, panY = 0, lastPinchDistance = None,
                   notifications = [] \<rparr>"

subsection \<open>The viewport\<close>

text \<open>
  The canvas rectangle (getBoundingClientRect), a wheel event and a touch point, each
  with the fields the handlers read.

  onWheel divides by the scale it finds. In HOL a division by zero is 0, in JavaScript
  it is an infinity or NaN; the two agree wherever the scale is not 0, and the scale
  is in [0.1, 5] in every reachable state (reachable_invariant). The properties of
  onWheel below are stated for a scale in that interval.
\<close>

record rect =
  rect_left :: real
  rect_top :: real

record wheel_event =
  w_clientX :: real
  w_clientY :: real
  w_deltaY :: real

record touch =
  t_clientX :: real
  t_clientY :: real

definition onWheel :: "rect \<Rightarrow> wheel_event \<Rightarrow> editor \<Rightarrow> editor" where
  "onWheel rect e ed =
     (let mouseX = w_clientX e - rect_left rect;
          mouseY = w_clientY e - rect_top rect;
          zoomFactor = 0.1;
          oldScale = scale ed;
          ed1 = (if w_deltaY e < 0 then ed\<lparr> scale := scale ed * (1 + zoomFactor) \<rparr>
                 else ed\<lparr> scale := scale ed / (1 + zoomFactor) \<rparr>);
          ed2 = ed1\<lparr> scale := max 0.1 (min 5 (scale ed1)) \<rparr>;
          scaleChange = scale ed2 / oldScale;
          ed3 = ed2\<lparr> panX := mouseX - (mouseX - panX ed2) * scaleChange \<rparr>
      in ed3\<lparr> panY := mouseY - (mouseY - panY ed3) * scaleChange \<rparr>)"

text \<open>Math.hypot on two arguments.\<close>

definition hypot :: "real \<Rightarrow> real \<Rightarrow> real" where
  "hypot a b = sqrt (a\<^sup>2 + b\<^sup>2)"

text \<open>
  handlePinchZoom returns at once unless there are exactly two touches. The test
  \<open>if (this.lastPinchDistance)\<close> fails for undefined and for 0.
\<close>

definition handlePinchZoom :: "touch list \<Rightarrow> editor \<Rightarrow> editor" where
  "handlePinchZoom touches ed =
     (if length touches \<noteq> 2 then ed
      else
        let touch1 = touches ! 0;
            touch2 = touches ! 1;
            currentDistance = hypot (t_clientX touch1 - t_clientX touch2)
                                    (t_clientY touch1 - t_clientY touch2);
            ed2 = (case lastPinchDistance ed of
                     None \<Rightarrow> ed
                   | Some lastDistance \<Rightarrow>
                       if lastDistance = 0 then ed
                       else
                         let delta = currentDistance - lastDistance;
                             zoomFactor = delta * 0.01;
                             ed1 = ed\<lparr> scale := scale ed * (1 + zoomFactor) \<rparr>
                         in ed1\<lparr> scale := max 0.1 (min 5 (scale ed1)) \<rparr>)
        in ed2\<lparr> lastPinchDistance := Some currentDistance \<rparr>)"

definition zoomIn :: "editor \<Rightarrow> editor" where
  "zoomIn ed = (let ed1 = ed\<lparr> scale := scale ed * 1.1 \<rparr> in ed1\<lparr> scale := min 5 (scale ed1) \<rparr>)"

definition zoomOut :: "editor \<Rightarrow> editor" where
  "zoomOut ed = (let ed1 = ed\<lparr> scale := scale ed / 1.1 \<rparr> in ed1\<lparr> scale := max 0.1 (scale ed1) \<rparr>)"

text \<open>
  The inverse viewport transform the mouse and drop handlers apply to a point of the
  canvas: \<open>(e.clientX - rect.left - this.panX) / this.scale\<close>, with
  \<open>sx = e.clientX - rect.left\<close>.
\<close>

definition graphX :: "editor \<Rightarrow> real \<Rightarrow> real" where
  "graphX ed sx = (sx - panX ed) / scale ed"

definition graphY :: "editor \<Rightarrow> real \<Rightarrow> real" where
  "graphY ed sy = (sy - panY ed) / scale ed"

text \<open>The inputs that change the scale, and a run of them in order.\<close>

datatype zoom_input =
    WheelInput rect wheel_event
  | ZoomInButton
  | ZoomOutButton
  | PinchInput "touch list"

fun zoom_step :: "editor \<Rightarrow> zoom_input \<Rightarrow> editor" where
  "zoom_step ed (WheelInput rect e) = onWheel rect e ed"
| "zoom_step ed ZoomInButton = zoomIn ed"
| "zoom_step ed ZoomOutButton = zoomOut ed"
| "zoom_step ed (PinchInput touches) = handlePinchZoom touches ed"

definition zoom_run :: "editor \<Rightarrow> zoom_input list \<Rightarrow> editor" where
  "zoom_run ed inputs = foldl zoom_step ed inputs"

subsection \<open>Save, run and validate\<close>

text \<open>
  The three operations are async functions. A call runs up to its first await and
  returns; the rest runs later, on the fields as they are then. \<open>Settled ed\<close> is a
  call that finished with no await, leaving \<open>ed\<close>; \<open>Suspended ed ms k\<close> left \<open>ed\<close>
  and continues with \<open>k\<close> after \<open>ms\<close> milliseconds. Nothing in the guarded blocks of
  the three functions throws in this model, so their catch branches are not reached.
\<close>

datatype outcome =
    Settled editor
  | Suspended editor nat "editor \<Rightarrow> editor"

definition saveScenario :: "editor \<Rightarrow> outcome" where
  "saveScenario ed =
     (if length (nodes ed) = 0 then Settled (showNotification msg_save_empty ''warning'' ed)
      else Suspended (showNotification msg_saving ''info'' ed) 1000
                     (showNotification msg_saved ''success''))"

definition runScenario :: "editor \<Rightarrow> outcome" where
  "runScenario ed =
     (if length (nodes ed) = 0 then Settled (showNotification msg_run_empty ''warning'' ed)
      else Suspended (showNotification msg_running ''info'' ed) 2000
                     (showNotification msg_ran ''success''))"

text \<open>Array.prototype.join on strings.\<close>

fun join :: "string \<Rightarrow> string list \<Rightarrow> string" where
  "join sep [] = []"
| "join sep [s] = s"
| "join sep (s # t # ts) = s @ sep @ join sep (t # ts)"

text \<open>
  join turns each element into a string. A title that is a string is itself; for any
  other value the text is the host's, given as the parameter \<open>host\<close>.
\<close>

definition to_string :: "(jsval \<Rightarrow> string) \<Rightarrow> jsval \<Rightarrow> string" where
  "to_string host v = (case v of JStr s \<Rightarrow> s | _ \<Rightarrow> host v)"

text \<open>The set built by the forEach over the connections.\<close>

definition connectedNodeIds :: "connection list \<Rightarrow> int set" where
  "connectedNodeIds conns =
     foldl (\<lambda>ids conn. insert (c_to conn) (insert (c_from conn) ids)) {} conns"

definition isolatedNodes :: "editor \<Rightarrow> ref list" where
  "isolatedNodes ed =
     filter (\<lambda>n. n_id (heap ed n) \<notin> connectedNodeIds (connections ed) \<and>
                 n_type (heap ed n) \<noteq> ''start'' \<and> n_type (heap ed n) \<noteq> ''end'')
            (nodes ed)"

text \<open>The array \<open>issues\<close> of validateScenario when the checks are done.\<close>

definition validate_issues :: "(jsval \<Rightarrow> string) \<Rightarrow> editor \<Rightarrow> string list" where
  "validate_issues host ed =
     (let issues0 = [];
          hasStart = list_ex (\<lambda>n. n_type (heap ed n) = ''start'') (nodes ed);
          issues1 = (if \<not> hasStart then issues0 @ [msg_missing_start] else issues0);
          hasEnd = list_ex (\<lambda>n. n_type (heap ed n) = ''end'') (nodes ed);
          issues2 = (if \<not> hasEnd then issues1 @ [msg_missing_end] else issues1);
          isolated = isolatedNodes ed
      in if length isolated > 0
         then issues2 @ [msg_isolated @
                         join '', '' (map (\<lambda>n. to_string host (n_title (heap ed n))) isolated)]
         else issues2)"

definition validateScenario :: "(jsval \<Rightarrow> string) \<Rightarrow> editor \<Rightarrow> outcome" where
  "validateScenario host ed =
     (if length (nodes ed) = 0
      then Settled (showNotification msg_validate_empty ''warning'' ed)
      else
        let ed1 = showNotification msg_validating ''info'' ed;
            issues = validate_issues host ed1
        in if length issues = 0
           then Settled (showNotification msg_valid ''success'' ed1)
           else Settled (showNotification (msg_problems @ join ''; '' issues) ''warning'' ed1))"

subsection \<open>Notions the properties are stated with\<close>


text \<open>Every reference in the array has been allocated.\<close>

definition allocated :: "editor \<Rightarrow> bool" where
  "allocated ed = list_all (\<lambda>n. n < next_ref ed) (nodes ed)"

text \<open>
  The point \<open>(x, y)\<close> lies in the rectangle
  \<open>[x, x + width] \<times> [y, y + height]\<close> of the node, borders included.
\<close>

definition in_box :: "node \<Rightarrow> real \<Rightarrow> real \<Rightarrow> bool" where
  "in_box n x y = (n_x n \<le> x \<and> x \<le> n_x n + n_width n \<and> n_y n \<le> y \<and> y \<le> n_y n + n_height n)"

text \<open>A run of addNode calls, each with its two clock readings, kind and position.\<close>

fun addNodes :: "(int \<times> int \<times> string \<times> real \<times> real) list \<Rightarrow> editor \<Rightarrow> editor" where
  "addNodes [] ed = ed"
| "addNodes ((now, now', type, x, y) # calls) ed = addNodes calls (addNode now now' type x y ed)"

subsection \<open>States\<close>

text \<open>
  The states the editor can reach from a fresh one by the operations above (the
  continuations of save and run only notify).
\<close>

inductive reachable :: "editor \<Rightarrow> bool" where
  init: "reachable new_editor"
| add: "reachable ed \<Longrightarrow> reachable (addNode now now' type x y ed)"
| remove: "reachable ed \<Longrightarrow> reachable (removeNode node ed)"
| clear: "reachable ed \<Longrightarrow> reachable (clearWorkspace confirmed ed)"
| zoom: "reachable ed \<Longrightarrow> reachable (zoom_step ed i)"
| notify: "reachable ed \<Longrightarrow> reachable (showNotification message severity ed)"

text \<open>
  A concrete graph with the ids, kinds, positions and connections of the demo scenario
  that loadScenario installs: five nodes with ids 1 to 5 in a chain.
\<close>

definition demo_editor :: editor where
  "demo_editor =
     (addNodes [(1, 1, ''start'', 100, 100), (2, 2, ''state'', 300, 100),
                (3, 3, ''action'', 500, 100), (4, 4, ''condition'', 300, 250),
                (5, 5, ''end'', 500, 250)] new_editor)
     \<lparr> connections :=
         [\<lparr> c_from = 1, c_to = 2, c_color = ''#3498db'', c_dashed = False \<rparr>,
          \<lparr> c_from = 2, c_to = 3, c_color = ''#2ecc71'', c_dashed = False \<rparr>,
          \<lparr> c_from = 3, c_to = 4, c_color = ''#f39c12'', c_dashed = False \<rparr>,
          \<lparr> c_from = 4, c_to = 5, c_color = ''#e74c3c'', c_dashed = False \<rparr>] \<rparr>"

text \<open>The demo graph with a sixth node laid partly over the third one.\<close>

definition overlap_editor :: editor where
  "overlap_editor = addNode 6 6 ''event'' 550 120 demo_editor"

text \<open>
  Two touch-move events of a pinch: the fingers 100 apart, then 300 apart, both around
  the screen point (250, 300). After the first event the editor has recorded the
  distance 100.
\<close>

definition pinch_start :: "touch list" where
  "pinch_start = [\<lparr> t_clientX = 200, t_clientY = 300 \<rparr>, \<lparr> t_clientX = 300, t_clientY = 300 \<rparr>]"

definition pinch_spread :: "touch list" where
  "pinch_spread = [\<lparr> t_clientX = 100, t_clientY = 300 \<rparr>, \<lparr> t_clientX = 400, t_clientY = 300 \<rparr>]"

definition pinch_ready :: editor where
  "pinch_ready = handlePinchZoom pinch_start new_editor"

text \<open>
  A start node, an end node and one state node with no connection at all; and the same
  with a second unconnected node.
\<close>

definition three_nodes :: editor where
  "three_nodes =
     addNodes [(1, 1, ''start'', 100, 100), (2, 2, ''end'', 500, 100),
               (3, 3, ''state'', 300, 300)] new_editor"

definition two_isolated :: editor where
  "two_isolated =
     addNodes [(1, 1, ''start'', 100, 100), (2, 2, ''end'', 500, 100),
               (3, 3, ''state'', 300, 300), (4, 4, ''action'', 300, 500)] new_editor"

section \<open>Properties\<close>

subsection \<open>Field lemmas\<close>

lemma addNode_fields:
  "nodes (addNode now now' type x y ed) = nodes ed @ [next_ref ed]"
  "next_ref (addNode now now' type x y ed) = Suc (next_ref ed)"
  "connections (addNode now now' type x y ed) = connections ed"
  "scale (addNode now now' type x y ed) = scale ed"
  "panX (addNode now now' type x y ed) = panX ed"
  "panY (addNode now now' type x y ed) = panY ed"
  "lastPinchDistance (addNode now now' type x y ed) = lastPinchDistance ed"
  "notifications (addNode now now' type x y ed) = notifications ed"
  by (simp_all add: addNode_def Let_def)

lemma addNode_heap:
  "heap (addNode now now' type x y ed) r =
     (if r = next_ref ed
      then \<lparr> n_id = now, n_type = type, n_x = x, n_y = y, n_width = 120, n_height = 80,
             n_title = getNodeTitle type, n_color = getNodeColor type,
             n_properties = getDefaultProperties now' type \<rparr>
      else heap ed r)"
  by (simp add: addNode_def Let_def)

lemma new_editor_fields:
  "nodes new_editor = []" "next_ref new_editor = 0" "connections new_editor = []"
  "scale new_editor = 1" "panX new_editor = 0" "panY new_editor = 0"
  "lastPinchDistance new_editor = None" "notifications new_editor = []"
  by (simp_all add: new_editor_def)

lemma demo_editor_fields:
  "nodes demo_editor = [0, 1, 2, 3, 4]"
  "next_ref demo_editor = 5"
  "n_id (heap demo_editor 2) = 3"
  by (simp_all add: demo_editor_def addNode_fields addNode_heap new_editor_fields)

lemma demo_editor_connections:
  "connections demo_editor =
     [\<lparr> c_from = 1, c_to = 2, c_color = ''#3498db'', c_dashed = False \<rparr>,
      \<lparr> c_from = 2, c_to = 3, c_color = ''#2ecc71'', c_dashed = False \<rparr>,
      \<lparr> c_from = 3, c_to = 4, c_color = ''#f39c12'', c_dashed = False \<rparr>,
      \<lparr> c_from = 4, c_to = 5, c_color = ''#e74c3c'', c_dashed = False \<rparr>]"
  by (simp add: demo_editor_def)

lemma showNotification_fields:
  "nodes (showNotification m s ed) = nodes ed"
  "next_ref (showNotification m s ed) = next_ref ed"
  "heap (showNotification m s ed) = heap ed"
  "connections (showNotification m s ed) = connections ed"
  "scale (showNotification m s ed) = scale ed"
  "panX (showNotification m s ed) = panX ed"
  "panY (showNotification m s ed) = panY ed"
  "notifications (showNotification m s ed) = notifications ed @ [(m, s)]"
  by (simp_all add: showNotification_def)

subsection \<open>Removing a node\<close>

lemma indexOf_None: "indexOf xs v = None \<longleftrightarrow> v \<notin> set xs"
  by (induction xs) auto

lemma indexOf_Some_remove1: "indexOf xs v = Some i \<Longrightarrow> splice1 i xs = remove1 v xs"
proof (induction xs arbitrary: i)
  case Nil
  then show ?case by simp
next
  case (Cons a as)
  show ?case
  proof (cases "a = v")
    case True
    with Cons.prems show ?thesis by (simp add: splice1_def)
  next
    case False
    with Cons.prems obtain j where j: "indexOf as v = Some j" "i = Suc j" by auto
    with Cons.IH[of j] False show ?thesis by (simp add: splice1_def)
  qed
qed

lemma indexOf_mem: "v \<in> set xs \<Longrightarrow> \<exists>i. indexOf xs v = Some i"
  using indexOf_None[of xs v] by (cases "indexOf xs v") auto

lemma removeNode_present:
  assumes "node \<in> set (nodes ed)"
  shows "removeNode node ed =
           ed\<lparr> nodes := remove1 node (nodes ed),
               connections :=
                 filter (\<lambda>c. c_from c \<noteq> n_id (heap ed node) \<and> c_to c \<noteq> n_id (heap ed node))
                        (connections ed) \<rparr>"
proof -
  from assms obtain i where i: "indexOf (nodes ed) node = Some i"
    using indexOf_mem by fastforce
  then show ?thesis
    by (simp add: removeNode_def indexOf_Some_remove1 Let_def)
qed

lemma removeNode_absent: "node \<notin> set (nodes ed) \<Longrightarrow> removeNode node ed = ed"
  by (simp add: removeNode_def indexOf_None[THEN iffD2])

text \<open>
  C1. When the node is in the array, removeNode takes its (first) entry out of the
  array and, in the same call, keeps only the connections whose from and to both differ
  from the node's id: no connection left refers to that id. The array never holds an
  object twice in a reachable state (lemma reachable_invariant below), and then the
  node is not in the array afterwards.
\<close>

theorem removeNode_no_dangling:
  assumes "node \<in> set (nodes ed)"
  shows "nodes (removeNode node ed) = remove1 node (nodes ed) \<and>
         connections (removeNode node ed) =
           filter (\<lambda>c. c_from c \<noteq> n_id (heap ed node) \<and> c_to c \<noteq> n_id (heap ed node))
                  (connections ed) \<and>
         (\<forall>c \<in> set (connections (removeNode node ed)).
            c_from c \<noteq> n_id (heap ed node) \<and> c_to c \<noteq> n_id (heap ed node)) \<and>
         (distinct (nodes ed) \<longrightarrow> node \<notin> set (nodes (removeNode node ed)))"
  by (simp add: removeNode_present[OF assms])

theorem removeNode_no_dangling_witness:
  "(2::nat) \<in> set (nodes demo_editor) \<and>
   nodes (removeNode 2 demo_editor) = [0, 1, 3, 4] \<and>
   connections (removeNode 2 demo_editor) =
     [\<lparr> c_from = 1, c_to = 2, c_color = ''#3498db'', c_dashed = False \<rparr>,
      \<lparr> c_from = 4, c_to = 5, c_color = ''#e74c3c'', c_dashed = False \<rparr>] \<and>
   2 \<notin> set (nodes (removeNode 2 demo_editor))"
proof -
  have h: "(2::nat) \<in> set (nodes demo_editor)"
    by (simp add: demo_editor_fields)
  note t = removeNode_no_dangling[OF h]
  have n: "nodes (removeNode 2 demo_editor) = [0, 1, 3, 4]"
    using t by (simp add: demo_editor_fields)
  have c: "connections (removeNode 2 demo_editor) =
     [\<lparr> c_from = 1, c_to = 2, c_color = ''#3498db'', c_dashed = False \<rparr>,
      \<lparr> c_from = 4, c_to = 5, c_color = ''#e74c3c'', c_dashed = False \<rparr>]"
    using conjunct1[OF conjunct2[OF t]]
    by (simp add: demo_editor_fields demo_editor_connections)
  show ?thesis using h n c by simp
qed

text \<open>
  C8. removeNode called with a node that is not in the array changes nothing: the
  whole editor, so in particular the node list and the connection list, is as before.
\<close>

theorem removeNode_absent_noop:
  "node \<notin> set (nodes ed) \<Longrightarrow>
     removeNode node ed = ed \<and>
     nodes (removeNode node ed) = nodes ed \<and>
     connections (removeNode node ed) = connections ed"
  by (simp add: removeNode_absent)

theorem removeNode_absent_noop_witness:
  "(2::nat) \<notin> set (nodes (removeNode 2 demo_editor)) \<and>
   removeNode 2 (removeNode 2 demo_editor) = removeNode 2 demo_editor \<and>
   nodes (removeNode 2 (removeNode 2 demo_editor)) = [0, 1, 3, 4] \<and>
   length (connections (removeNode 2 (removeNode 2 demo_editor))) = 2"
proof -
  have p: "(2::nat) \<in> set (nodes demo_editor)"
    by (simp add: demo_editor_fields)
  have n: "nodes (removeNode 2 demo_editor) = [0, 1, 3, 4]"
    by (simp add: removeNode_present[OF p] demo_editor_fields)
  have c: "length (connections (removeNode 2 demo_editor)) = 2"
    by (simp add: removeNode_present[OF p] demo_editor_fields demo_editor_connections)
  have h: "(2::nat) \<notin> set (nodes (removeNode 2 demo_editor))"
    by (simp add: n)
  from removeNode_absent_noop[OF h] show ?thesis
    using h n c by simp
qed

subsection \<open>The scale\<close>

lemma zoomIn_eq: "zoomIn ed = ed\<lparr> scale := min 5 (scale ed * 1.1) \<rparr>"
  by (simp add: zoomIn_def Let_def)

lemma zoomOut_eq: "zoomOut ed = ed\<lparr> scale := max 0.1 (scale ed / 1.1) \<rparr>"
  by (simp add: zoomOut_def Let_def)

lemma onWheel_scale:
  "scale (onWheel rect e ed) =
     max 0.1 (min 5 (if w_deltaY e < 0 then scale ed * 1.1 else scale ed / 1.1))"
  by (simp add: onWheel_def Let_def)

lemma clamp_range: "0.1 \<le> max 0.1 (min 5 z) \<and> max 0.1 (min 5 z) \<le> (5::real)"
  by simp

lemma handlePinchZoom_scale:
  "scale (handlePinchZoom touches ed) =
     (if length touches \<noteq> 2 then scale ed
      else case lastPinchDistance ed of
             None \<Rightarrow> scale ed
           | Some d \<Rightarrow>
               if d = 0 then scale ed
               else max 0.1 (min 5 (scale ed *
                      (1 + (hypot (t_clientX (touches ! 0) - t_clientX (touches ! 1))
                                  (t_clientY (touches ! 0) - t_clientY (touches ! 1)) - d) * 0.01))))"
  by (simp add: handlePinchZoom_def Let_def split: option.split)

lemma handlePinchZoom_scale_cases:
  "scale (handlePinchZoom touches ed) = scale ed \<or>
   (\<exists>z. scale (handlePinchZoom touches ed) = max 0.1 (min 5 z))"
proof (cases "length touches \<noteq> 2")
  case True
  then show ?thesis by (simp add: handlePinchZoom_scale)
next
  case two: False
  show ?thesis
  proof (cases "lastPinchDistance ed")
    case None
    with two show ?thesis by (simp add: handlePinchZoom_scale)
  next
    case (Some d)
    show ?thesis
    proof (cases "d = 0")
      case True
      with two Some show ?thesis by (simp add: handlePinchZoom_scale)
    next
      case False
      with two Some have "\<exists>z. scale (handlePinchZoom touches ed) = max 0.1 (min 5 z)"
        unfolding handlePinchZoom_scale by (intro exI) simp
      then show ?thesis ..
    qed
  qed
qed

lemma handlePinchZoom_scale_range:
  assumes "0.1 \<le> scale ed" "scale ed \<le> 5"
  shows "0.1 \<le> scale (handlePinchZoom touches ed) \<and> scale (handlePinchZoom touches ed) \<le> 5"
  using handlePinchZoom_scale_cases[of touches ed]
proof
  assume "scale (handlePinchZoom touches ed) = scale ed"
  with assms show ?thesis by simp
next
  assume "\<exists>z. scale (handlePinchZoom touches ed) = max 0.1 (min 5 z)"
  then obtain z where "scale (handlePinchZoom touches ed) = max 0.1 (min 5 z)" ..
  then show ?thesis using clamp_range[of z] by simp
qed

lemma zoom_step_scale_range:
  assumes "0.1 \<le> scale ed" "scale ed \<le> 5"
  shows "0.1 \<le> scale (zoom_step ed i) \<and> scale (zoom_step ed i) \<le> 5"
proof (cases i)
  case (WheelInput rect e)
  then show ?thesis by (simp add: onWheel_scale)
next
  case ZoomInButton
  with assms show ?thesis by (simp add: zoomIn_eq)
next
  case ZoomOutButton
  with assms show ?thesis by (simp add: zoomOut_eq)
next
  case (PinchInput touches)
  with assms show ?thesis using handlePinchZoom_scale_range by simp
qed

lemma zoom_step_frame:
  "nodes (zoom_step ed i) = nodes ed"
  "next_ref (zoom_step ed i) = next_ref ed"
  "heap (zoom_step ed i) = heap ed"
  "connections (zoom_step ed i) = connections ed"
  "notifications (zoom_step ed i) = notifications ed"
  by (cases i; simp add: onWheel_def zoomIn_eq zoomOut_eq handlePinchZoom_def Let_def
        split: option.split)+




lemma zoom_in_saturates:
  "scale (zoom_run (new_editor\<lparr> scale := 4.9 \<rparr>) [ZoomInButton, ZoomInButton]) = 5"
  by (simp add: zoom_run_def zoomIn_eq)

lemma zoom_out_saturates:
  "scale (zoom_run (new_editor\<lparr> scale := 0.105 \<rparr>) [ZoomOutButton, ZoomOutButton]) = 0.1"
  by (simp add: zoom_run_def zoomOut_eq)

text \<open>
  C10. zoomIn multiplies the scale by 1.1 and caps it at 5, zoomOut divides it by 1.1
  and keeps it at least 0.1; every other field, so the pan, the node list and the
  connection list, is as before.
\<close>

theorem zoom_buttons_only_scale:
  "zoomIn ed = ed\<lparr> scale := min 5 (scale ed * 1.1) \<rparr> \<and>
   zoomOut ed = ed\<lparr> scale := max 0.1 (scale ed / 1.1) \<rparr> \<and>
   panX (zoomIn ed) = panX ed \<and> panY (zoomIn ed) = panY ed \<and>
   nodes (zoomIn ed) = nodes ed \<and> connections (zoomIn ed) = connections ed \<and>
   panX (zoomOut ed) = panX ed \<and> panY (zoomOut ed) = panY ed \<and>
   nodes (zoomOut ed) = nodes ed \<and> connections (zoomOut ed) = connections ed"
  by (simp add: zoomIn_eq zoomOut_eq)

theorem zoom_buttons_only_scale_witness:
  "scale (zoomIn demo_editor) = 1.1 \<and> scale (zoomOut demo_editor) = 10 / 11 \<and>
   panX (zoomIn demo_editor) = 0 \<and> panY (zoomOut demo_editor) = 0 \<and>
   nodes (zoomIn demo_editor) = [0, 1, 2, 3, 4] \<and>
   length (connections (zoomOut demo_editor)) = 4"
proof -
  have s: "scale demo_editor = 1" "panX demo_editor = 0" "panY demo_editor = 0"
    by (simp_all add: demo_editor_def addNode_fields new_editor_fields)
  from zoom_buttons_only_scale[of demo_editor] show ?thesis
    by (simp add: s demo_editor_fields demo_editor_connections)
qed

subsection \<open>Reachable states\<close>

lemma allocated_iff: "allocated ed \<longleftrightarrow> (\<forall>n \<in> set (nodes ed). n < next_ref ed)"
  by (simp add: allocated_def list_all_iff)

lemma reachable_invariant:
  "reachable ed \<Longrightarrow>
     distinct (nodes ed) \<and> allocated ed \<and> 0.1 \<le> scale ed \<and> scale ed \<le> 5"
proof (induction rule: reachable.induct)
  case init
  show ?case by (simp add: allocated_iff new_editor_fields)
next
  case (add ed now now' type x y)
  then show ?case by (auto simp: allocated_iff addNode_fields)
next
  case (remove ed node)
  show ?case
  proof (cases "node \<in> set (nodes ed)")
    case True
    with remove.IH show ?thesis
      by (auto simp: removeNode_present allocated_iff dest: notin_set_remove1)
  next
    case False
    with remove.IH show ?thesis by (simp add: removeNode_absent)
  qed
next
  case (clear ed confirmed)
  then show ?case by (simp add: clearWorkspace_def allocated_iff showNotification_fields)
next
  case (zoom ed i)
  with zoom_step_scale_range[of ed i] show ?case
    by (simp add: allocated_iff zoom_step_frame)
next
  case (notify ed message severity)
  then show ?case by (simp add: allocated_iff showNotification_fields)
qed

subsection \<open>The empty workspace\<close>

text \<open>
  C7. With no node in the array, each of saveScenario, runScenario and validateScenario
  finishes before any await, having appended one notification of severity warning and
  changed nothing else: nodes, connections and viewport are as before.
\<close>

theorem empty_workspace_advisory:
  assumes "nodes ed = []"
  shows "saveScenario ed =
           Settled (ed\<lparr> notifications := notifications ed @ [(msg_save_empty, ''warning'')] \<rparr>) \<and>
         runScenario ed =
           Settled (ed\<lparr> notifications := notifications ed @ [(msg_run_empty, ''warning'')] \<rparr>) \<and>
         validateScenario host ed =
           Settled (ed\<lparr> notifications := notifications ed @ [(msg_validate_empty, ''warning'')] \<rparr>)"
  using assms
  by (simp add: saveScenario_def runScenario_def validateScenario_def showNotification_def)

theorem empty_workspace_advisory_witness:
  "nodes new_editor = [] \<and>
   saveScenario new_editor =
     Settled (new_editor\<lparr> notifications := [(msg_save_empty, ''warning'')] \<rparr>) \<and>
   runScenario new_editor =
     Settled (new_editor\<lparr> notifications := [(msg_run_empty, ''warning'')] \<rparr>) \<and>
   validateScenario (\<lambda>v. ''[object Object]'') new_editor =
     Settled (new_editor\<lparr> notifications := [(msg_validate_empty, ''warning'')] \<rparr>)"
proof -
  have h: "nodes new_editor = []" by (simp add: new_editor_fields)
  from empty_workspace_advisory[OF h, of "\<lambda>v. ''[object Object]''"] show ?thesis
    by (simp add: new_editor_fields)
qed

subsection \<open>Node ids\<close>






subsection \<open>Hit testing\<close>

lemma getNodeAt_from_find:
  "k \<le> length (nodes ed) \<Longrightarrow>
     getNodeAt_from ed x y k = find (\<lambda>n. in_box (heap ed n) x y) (rev (take k (nodes ed)))"
proof (induction k)
  case 0
  show ?case by simp
next
  case (Suc k)
  then have k: "k < length (nodes ed)" by simp
  with Suc.IH show ?case
    by (simp add: take_Suc_conv_app_nth in_box_def Let_def)
qed

lemma getNodeAt_find:
  "getNodeAt ed x y = find (\<lambda>n. in_box (heap ed n) x y) (rev (nodes ed))"
  by (simp add: getNodeAt_def getNodeAt_from_find)

lemma getNodeAt_from_None:
  "getNodeAt_from ed x y k = None \<longleftrightarrow> (\<forall>i<k. \<not> in_box (heap ed (nodes ed ! i)) x y)"
proof (induction k)
  case 0
  show ?case by simp
next
  case (Suc k)
  show ?case
  proof (cases "in_box (heap ed (nodes ed ! k)) x y")
    case True
    then have "getNodeAt_from ed x y (Suc k) \<noteq> None"
      by (simp add: in_box_def Let_def)
    with True show ?thesis by blast
  next
    case False
    then have "getNodeAt_from ed x y (Suc k) = getNodeAt_from ed x y k"
      by (auto simp: in_box_def Let_def)
    with Suc.IH False show ?thesis by (auto simp: less_Suc_eq)
  qed
qed

lemma getNodeAt_from_Some:
  "getNodeAt_from ed x y k = Some r \<longleftrightarrow>
     (\<exists>i<k. nodes ed ! i = r \<and> in_box (heap ed r) x y \<and>
            (\<forall>j. i < j \<and> j < k \<longrightarrow> \<not> in_box (heap ed (nodes ed ! j)) x y))"
proof (induction k)
  case 0
  show ?case by simp
next
  case (Suc k)
  show ?case
  proof (cases "in_box (heap ed (nodes ed ! k)) x y")
    case True
    then have g: "getNodeAt_from ed x y (Suc k) = Some (nodes ed ! k)"
      by (simp add: in_box_def Let_def)
    show ?thesis
    proof
      assume "getNodeAt_from ed x y (Suc k) = Some r"
      with g have "nodes ed ! k = r" by simp
      with True show "\<exists>i<Suc k. nodes ed ! i = r \<and> in_box (heap ed r) x y \<and>
            (\<forall>j. i < j \<and> j < Suc k \<longrightarrow> \<not> in_box (heap ed (nodes ed ! j)) x y)"
        by (intro exI[of _ k]) auto
    next
      assume "\<exists>i<Suc k. nodes ed ! i = r \<and> in_box (heap ed r) x y \<and>
            (\<forall>j. i < j \<and> j < Suc k \<longrightarrow> \<not> in_box (heap ed (nodes ed ! j)) x y)"
      then obtain i where i: "i < Suc k" "nodes ed ! i = r"
        "\<forall>j. i < j \<and> j < Suc k \<longrightarrow> \<not> in_box (heap ed (nodes ed ! j)) x y" by blast
      have "i = k"
      proof (rule ccontr)
        assume "i \<noteq> k"
        with i(1) have "i < k \<and> k < Suc k" by simp
        with i(3) True show False by blast
      qed
      with i(2) g show "getNodeAt_from ed x y (Suc k) = Some r" by simp
    qed
  next
    case False
    then have g: "getNodeAt_from ed x y (Suc k) = getNodeAt_from ed x y k"
      by (auto simp: in_box_def Let_def)
    show ?thesis
    proof
      assume "getNodeAt_from ed x y (Suc k) = Some r"
      with g Suc.IH obtain i where i: "i < k" "nodes ed ! i = r" "in_box (heap ed r) x y"
        "\<forall>j. i < j \<and> j < k \<longrightarrow> \<not> in_box (heap ed (nodes ed ! j)) x y" by auto
      with False have "\<forall>j. i < j \<and> j < Suc k \<longrightarrow> \<not> in_box (heap ed (nodes ed ! j)) x y"
        by (auto simp: less_Suc_eq)
      with i show "\<exists>i<Suc k. nodes ed ! i = r \<and> in_box (heap ed r) x y \<and>
            (\<forall>j. i < j \<and> j < Suc k \<longrightarrow> \<not> in_box (heap ed (nodes ed ! j)) x y)"
        by (intro exI[of _ i]) auto
    next
      assume "\<exists>i<Suc k. nodes ed ! i = r \<and> in_box (heap ed r) x y \<and>
            (\<forall>j. i < j \<and> j < Suc k \<longrightarrow> \<not> in_box (heap ed (nodes ed ! j)) x y)"
      then obtain i where i: "i < Suc k" "nodes ed ! i = r" "in_box (heap ed r) x y"
        "\<forall>j. i < j \<and> j < Suc k \<longrightarrow> \<not> in_box (heap ed (nodes ed ! j)) x y" by blast
      from i(2,3) False have "i \<noteq> k" by auto
      with i(1) have "i < k" by simp
      moreover from i(4) have "\<forall>j. i < j \<and> j < k \<longrightarrow> \<not> in_box (heap ed (nodes ed ! j)) x y"
        by auto
      ultimately have "getNodeAt_from ed x y k = Some r"
        using Suc.IH i(2,3) by blast
      with g show "getNodeAt_from ed x y (Suc k) = Some r" by simp
    qed
  qed
qed

text \<open>
  C6. getNodeAt returns none exactly when no node's rectangle holds the point, and
  returns a node exactly when its rectangle holds the point and no node at a later
  index does. addNode pushes at the end (addNode_fields), so the later index is the
  more recently added node.
\<close>

theorem getNodeAt_topmost:
  "(getNodeAt ed x y = None \<longleftrightarrow> (\<forall>n \<in> set (nodes ed). \<not> in_box (heap ed n) x y)) \<and>
   (\<forall>r. getNodeAt ed x y = Some r \<longleftrightarrow>
      (\<exists>i < length (nodes ed). nodes ed ! i = r \<and> in_box (heap ed r) x y \<and>
         (\<forall>j. i < j \<and> j < length (nodes ed) \<longrightarrow> \<not> in_box (heap ed (nodes ed ! j)) x y)))"
proof -
  have "getNodeAt ed x y = None \<longleftrightarrow> (\<forall>n \<in> set (nodes ed). \<not> in_box (heap ed n) x y)"
    by (simp add: getNodeAt_def getNodeAt_from_None all_set_conv_all_nth)
  then show ?thesis
    by (simp add: getNodeAt_def getNodeAt_from_Some)
qed

theorem getNodeAt_topmost_witness:
  "getNodeAt overlap_editor 560 130 = Some 5 \<and>
   in_box (heap overlap_editor 2) 560 130 \<and> in_box (heap overlap_editor 5) 560 130 \<and>
   getNodeAt overlap_editor 510 110 = Some 2 \<and>
   getNodeAt overlap_editor 0 0 = None"
  using getNodeAt_topmost[of overlap_editor 560 130]
  by (simp add: getNodeAt_find overlap_editor_def demo_editor_def addNode_fields addNode_heap
        new_editor_fields in_box_def)

subsection \<open>Zooming around an anchor\<close>

lemma onWheel_pan:
  "panX (onWheel rect e ed) =
     (w_clientX e - rect_left rect) -
     ((w_clientX e - rect_left rect) - panX ed) * (scale (onWheel rect e ed) / scale ed)"
  "panY (onWheel rect e ed) =
     (w_clientY e - rect_top rect) -
     ((w_clientY e - rect_top rect) - panY ed) * (scale (onWheel rect e ed) / scale ed)"
  by (simp_all add: onWheel_def Let_def)

lemma onWheel_scale_pos: "0 < scale (onWheel rect e ed)"
proof -
  have "0.1 \<le> scale (onWheel rect e ed)"
    unfolding onWheel_scale using clamp_range by blast
  then show ?thesis by simp
qed

lemma anchor_fixed:
  fixes a p s s' :: real
  assumes "s \<noteq> 0" "s' \<noteq> 0"
  shows "(a - (a - (a - p) * (s' / s))) / s' = (a - p) / s"
  using assms by (simp add: field_simps)

lemma handlePinchZoom_pan:
  "panX (handlePinchZoom touches ed) = panX ed"
  "panY (handlePinchZoom touches ed) = panY ed"
  by (simp_all add: handlePinchZoom_def Let_def split: option.split)

lemma hypot_horizontal: "hypot a 0 = \<bar>a\<bar>"
  by (simp add: hypot_def)

lemma pinch_ready_fields:
  "scale pinch_ready = 1" "panX pinch_ready = 0" "panY pinch_ready = 0"
  "lastPinchDistance pinch_ready = Some 100"
  by (simp_all add: pinch_ready_def pinch_start_def handlePinchZoom_def Let_def
        new_editor_fields hypot_horizontal)

lemma pinch_spread_fields:
  "scale (handlePinchZoom pinch_spread pinch_ready) = 3"
  "panX (handlePinchZoom pinch_spread pinch_ready) = 0"
  "panY (handlePinchZoom pinch_spread pinch_ready) = 0"
  by (simp_all add: handlePinchZoom_scale handlePinchZoom_pan pinch_ready_fields
        pinch_spread_def hypot_horizontal)

text \<open>
  C3, as the code has it. With the scale in [0.1, 5], a wheel step multiplies the
  scale by 1.1 or by 1 / 1.1, clamps it to [0.1, 5] and sets
  pan' = a - (a - pan) * (scale' / scale) for the mouse point a, and the graph point
  under a is the same before and after (exactly, in real arithmetic). A pinch with a
  recorded non-zero distance multiplies the scale by 1 + 0.01 * (distance - recorded)
  and clamps it; it reads no anchor and leaves the pan as it is.
\<close>

theorem wheel_zoom_keeps_anchor:
  assumes "0.1 \<le> scale ed" "scale ed \<le> 5"
    and "ed' = onWheel rect e ed"
    and "ax = w_clientX e - rect_left rect" "ay = w_clientY e - rect_top rect"
  shows "scale ed' = max 0.1 (min 5 (scale ed * (if w_deltaY e < 0 then 1.1 else 1 / 1.1))) \<and>
         panX ed' = ax - (ax - panX ed) * (scale ed' / scale ed) \<and>
         panY ed' = ay - (ay - panY ed) * (scale ed' / scale ed) \<and>
         graphX ed' ax = graphX ed ax \<and> graphY ed' ay = graphY ed ay \<and>
         (\<forall>touches d. length touches = 2 \<and> lastPinchDistance ed = Some d \<and> d \<noteq> 0 \<longrightarrow>
            scale (handlePinchZoom touches ed) =
              max 0.1 (min 5 (scale ed *
                (1 + (hypot (t_clientX (touches ! 0) - t_clientX (touches ! 1))
                            (t_clientY (touches ! 0) - t_clientY (touches ! 1)) - d) * 0.01))) \<and>
            panX (handlePinchZoom touches ed) = panX ed \<and>
            panY (handlePinchZoom touches ed) = panY ed)"
proof -
  from assms(1) have s: "scale ed \<noteq> 0" by simp
  have s': "scale ed' \<noteq> 0" using onWheel_scale_pos[of rect e ed] assms(3) by simp
  have sc: "scale ed' = max 0.1 (min 5 (scale ed * (if w_deltaY e < 0 then 1.1 else 1 / 1.1)))"
    by (simp add: assms(3) onWheel_scale)
  have px: "panX ed' = ax - (ax - panX ed) * (scale ed' / scale ed)"
    and py: "panY ed' = ay - (ay - panY ed) * (scale ed' / scale ed)"
    unfolding assms(3,4,5) by (rule onWheel_pan)+
  have gx: "graphX ed' ax = graphX ed ax"
    unfolding graphX_def px by (rule anchor_fixed[OF s s'])
  have gy: "graphY ed' ay = graphY ed ay"
    unfolding graphY_def py by (rule anchor_fixed[OF s s'])
  have pinch: "\<forall>touches d. length touches = 2 \<and> lastPinchDistance ed = Some d \<and> d \<noteq> 0 \<longrightarrow>
            scale (handlePinchZoom touches ed) =
              max 0.1 (min 5 (scale ed *
                (1 + (hypot (t_clientX (touches ! 0) - t_clientX (touches ! 1))
                            (t_clientY (touches ! 0) - t_clientY (touches ! 1)) - d) * 0.01))) \<and>
            panX (handlePinchZoom touches ed) = panX ed \<and>
            panY (handlePinchZoom touches ed) = panY ed"
    by (simp add: handlePinchZoom_scale handlePinchZoom_pan)
  from sc px py gx gy pinch show ?thesis by blast
qed

theorem wheel_zoom_keeps_anchor_witness:
  "0.1 \<le> scale pinch_ready \<and> scale pinch_ready \<le> 5 \<and>
   scale (onWheel \<lparr> rect_left = 10, rect_top = 20 \<rparr>
                  \<lparr> w_clientX = 110, w_clientY = 220, w_deltaY = -1 \<rparr> pinch_ready) = 1.1 \<and>
   panX (onWheel \<lparr> rect_left = 10, rect_top = 20 \<rparr>
                 \<lparr> w_clientX = 110, w_clientY = 220, w_deltaY = -1 \<rparr> pinch_ready) = -10 \<and>
   panY (onWheel \<lparr> rect_left = 10, rect_top = 20 \<rparr>
                 \<lparr> w_clientX = 110, w_clientY = 220, w_deltaY = -1 \<rparr> pinch_ready) = -20 \<and>
   graphX (onWheel \<lparr> rect_left = 10, rect_top = 20 \<rparr>
                   \<lparr> w_clientX = 110, w_clientY = 220, w_deltaY = -1 \<rparr> pinch_ready) 100 = 100 \<and>
   graphY (onWheel \<lparr> rect_left = 10, rect_top = 20 \<rparr>
                   \<lparr> w_clientX = 110, w_clientY = 220, w_deltaY = -1 \<rparr> pinch_ready) 200 = 200 \<and>
   length pinch_spread = 2 \<and> lastPinchDistance pinch_ready = Some 100 \<and>
   scale (handlePinchZoom pinch_spread pinch_ready) = 3 \<and>
   panX (handlePinchZoom pinch_spread pinch_ready) = 0"
proof -
  have lo: "0.1 \<le> scale pinch_ready" and hi: "scale pinch_ready \<le> 5"
    by (simp_all add: pinch_ready_fields)
  have g: "graphX pinch_ready 100 = 100" "graphY pinch_ready 200 = 200"
    by (simp_all add: graphX_def graphY_def pinch_ready_fields)
  have len: "length pinch_spread = 2" by (simp add: pinch_spread_def)
  from wheel_zoom_keeps_anchor[OF lo hi refl,
      of 100 "\<lparr> w_clientX = 110, w_clientY = 220, w_deltaY = -1 \<rparr>"
         "\<lparr> rect_left = 10, rect_top = 20 \<rparr>" 200]
  show ?thesis
    using lo hi len by (simp add: pinch_ready_fields pinch_spread_fields g)
qed

text \<open>
  C3 as stated fails for the pinch: spreading the fingers from 100 to 300 apart around
  the screen point 250 triples the scale and leaves panX at 0, where the anchor formula
  gives -500; the graph point under 250 moves from 250 to 250 / 3.
\<close>

theorem pinch_zoom_moves_anchor_counterexample:
  "scale (handlePinchZoom pinch_spread pinch_ready) = 3 \<and>
   panX (handlePinchZoom pinch_spread pinch_ready) \<noteq>
     250 - (250 - panX pinch_ready) *
             (scale (handlePinchZoom pinch_spread pinch_ready) / scale pinch_ready) \<and>
   graphX pinch_ready 250 = 250 \<and>
   graphX (handlePinchZoom pinch_spread pinch_ready) 250 = 250 / 3"
  by (simp add: pinch_spread_fields pinch_ready_fields graphX_def)

subsection \<open>Validation\<close>

lemma connectedNodeIds_foldl:
  "foldl (\<lambda>ids conn. insert (c_to conn) (insert (c_from conn) ids)) S conns =
     S \<union> c_from ` set conns \<union> c_to ` set conns"
  by (induction conns arbitrary: S) auto

lemma connectedNodeIds_eq:
  "connectedNodeIds conns = c_from ` set conns \<union> c_to ` set conns"
  by (simp add: connectedNodeIds_def connectedNodeIds_foldl)

lemma isolatedNodes_eq:
  "isolatedNodes ed =
     filter (\<lambda>n. n_type (heap ed n) \<noteq> ''start'' \<and> n_type (heap ed n) \<noteq> ''end'' \<and>
                 (\<forall>c \<in> set (connections ed).
                    c_from c \<noteq> n_id (heap ed n) \<and> c_to c \<noteq> n_id (heap ed n)))
            (nodes ed)"
  unfolding isolatedNodes_def connectedNodeIds_eq
  by (rule filter_cong) (auto simp: image_iff)

lemma validate_issues_eq:
  "validate_issues host ed =
     (if (\<exists>n \<in> set (nodes ed). n_type (heap ed n) = ''start'') then [] else [msg_missing_start]) @
     (if (\<exists>n \<in> set (nodes ed). n_type (heap ed n) = ''end'') then [] else [msg_missing_end]) @
     (if isolatedNodes ed = [] then []
      else [msg_isolated @
            join '', '' (map (\<lambda>n. to_string host (n_title (heap ed n))) (isolatedNodes ed))])"
  by (simp add: validate_issues_def Let_def list_ex_iff)

lemma validate_issues_notification_frame:
  "validate_issues host (showNotification m s ed) = validate_issues host ed"
  by (simp add: validate_issues_def isolatedNodes_def showNotification_fields Let_def)

lemma validateScenario_nonempty:
  "nodes ed \<noteq> [] \<Longrightarrow>
     validateScenario host ed =
       Settled (showNotification
                  (if validate_issues host ed = [] then msg_valid
                   else msg_problems @ join ''; '' (validate_issues host ed))
                  (if validate_issues host ed = [] then ''success'' else ''warning'')
                  (showNotification msg_validating ''info'' ed))"
  by (simp add: validateScenario_def Let_def validate_issues_notification_frame)

lemma three_nodes_fields:
  "nodes three_nodes = [0, 1, 2]" "connections three_nodes = []"
  "notifications three_nodes = []"
  by (simp_all add: three_nodes_def addNode_fields new_editor_fields)

lemma getNodeTitle_state: "getNodeTitle ''state'' = JStr title_state"
  by (simp add: getNodeTitle_def get_property_def titles_def or_else_def title_state_def)

lemma getNodeTitle_action: "getNodeTitle ''action'' = JStr title_action"
  by (simp add: getNodeTitle_def get_property_def titles_def or_else_def title_action_def)

lemma three_nodes_isolated: "isolatedNodes three_nodes = [2]"
  by (simp add: isolatedNodes_def connectedNodeIds_def three_nodes_def addNode_fields
        addNode_heap new_editor_fields)

lemma three_nodes_issues:
  "validate_issues host three_nodes = [msg_isolated @ title_state]"
  by (simp add: validate_issues_eq three_nodes_isolated to_string_def)
     (simp add: three_nodes_def addNode_fields addNode_heap new_editor_fields getNodeTitle_state)

lemma two_isolated_isolated: "isolatedNodes two_isolated = [2, 3]"
  by (simp add: isolatedNodes_def connectedNodeIds_def two_isolated_def addNode_fields
        addNode_heap new_editor_fields)

text \<open>
  C4, as the code has it. The issues of validateScenario are, in this order: the
  missing-start text iff no node has type start; the missing-end text iff no node has
  type end; and, iff at least one node of another type has an id that is neither the
  from nor the to of any connection, one single text that lists the titles of all such
  nodes, in array order, joined by a comma and a space. On a non-empty graph the list
  is not returned but shown: after the info notification comes one success
  notification when the list is empty, else one warning with the issues joined by a
  semicolon and a space.
\<close>

theorem validate_issues_list:
  assumes "isolated =
     filter (\<lambda>n. n_type (heap ed n) \<noteq> ''start'' \<and> n_type (heap ed n) \<noteq> ''end'' \<and>
                 (\<forall>c \<in> set (connections ed).
                    c_from c \<noteq> n_id (heap ed n) \<and> c_to c \<noteq> n_id (heap ed n)))
            (nodes ed)"
    and "issues = validate_issues host ed"
  shows "issues =
     (if (\<exists>n \<in> set (nodes ed). n_type (heap ed n) = ''start'') then [] else [msg_missing_start]) @
     (if (\<exists>n \<in> set (nodes ed). n_type (heap ed n) = ''end'') then [] else [msg_missing_end]) @
     (if isolated = [] then []
      else [msg_isolated @ join '', '' (map (\<lambda>n. to_string host (n_title (heap ed n))) isolated)]) \<and>
     (nodes ed \<noteq> [] \<longrightarrow>
        validateScenario host ed =
          Settled (ed\<lparr> notifications := notifications ed @
                     [(msg_validating, ''info''),
                      if issues = [] then (msg_valid, ''success'')
                      else (msg_problems @ join ''; '' issues, ''warning'')] \<rparr>))"
proof -
  have iso: "isolated = isolatedNodes ed"
    by (simp add: assms(1) isolatedNodes_eq)
  have "nodes ed \<noteq> [] \<longrightarrow>
        validateScenario host ed =
          Settled (ed\<lparr> notifications := notifications ed @
                     [(msg_validating, ''info''),
                      if issues = [] then (msg_valid, ''success'')
                      else (msg_problems @ join ''; '' issues, ''warning'')] \<rparr>)"
    by (simp add: validateScenario_nonempty assms(2) showNotification_def)
  then show ?thesis
    unfolding assms(2) iso by (simp add: validate_issues_eq)
qed

theorem validate_issues_list_witness:
  "validate_issues (\<lambda>v. ''[object Object]'') three_nodes = [msg_isolated @ title_state] \<and>
   length (validate_issues (\<lambda>v. ''[object Object]'') three_nodes) = 1 \<and>
   msg_missing_start \<notin> set (validate_issues (\<lambda>v. ''[object Object]'') three_nodes) \<and>
   msg_missing_end \<notin> set (validate_issues (\<lambda>v. ''[object Object]'') three_nodes) \<and>
   nodes three_nodes \<noteq> [] \<and>
   validateScenario (\<lambda>v. ''[object Object]'') three_nodes =
     Settled (three_nodes\<lparr> notifications :=
        [(msg_validating, ''info''),
         (msg_problems @ msg_isolated @ title_state, ''warning'')] \<rparr>)"
proof -
  let ?h = "\<lambda>v::jsval. ''[object Object]''"
  have ne: "msg_isolated @ title_state \<noteq> msg_missing_start"
    "msg_isolated @ title_state \<noteq> msg_missing_end"
    by (simp_all add: msg_isolated_def msg_missing_start_def msg_missing_end_def)
  have i: "validate_issues ?h three_nodes = [msg_isolated @ title_state]"
    by (rule three_nodes_issues)
  have n: "nodes three_nodes \<noteq> []"
    by (simp add: three_nodes_fields)
  note t = validate_issues_list[OF refl refl, where ed = three_nodes and host = ?h]
  from t n have "validateScenario ?h three_nodes =
      Settled (three_nodes\<lparr> notifications := notifications three_nodes @
         [(msg_validating, ''info''),
          if validate_issues ?h three_nodes = [] then (msg_valid, ''success'')
          else (msg_problems @ join ''; '' (validate_issues ?h three_nodes), ''warning'')] \<rparr>)"
    by blast
  then have v: "validateScenario ?h three_nodes =
      Settled (three_nodes\<lparr> notifications :=
         [(msg_validating, ''info''),
          (msg_problems @ msg_isolated @ title_state, ''warning'')] \<rparr>)"
    by (simp add: i three_nodes_fields)
  show ?thesis using i n v ne by simp
qed

text \<open>
  C4 as stated fails: with a start node, an end node and two unconnected nodes there
  are two isolated nodes and one issue (naming both), not one issue for each.
\<close>

theorem validate_one_issue_for_two_isolated_counterexample:
  "isolatedNodes two_isolated = [2, 3] \<and>
   validate_issues (\<lambda>v. ''[object Object]'') two_isolated =
     [msg_isolated @ title_state @ '', '' @ title_action] \<and>
   length (validate_issues (\<lambda>v. ''[object Object]'') two_isolated) \<noteq>
     length (isolatedNodes two_isolated)"
  by (simp add: validate_issues_eq two_isolated_isolated to_string_def)
     (simp add: two_isolated_def addNode_fields addNode_heap new_editor_fields
        getNodeTitle_state getNodeTitle_action)

subsection \<open>Kinds outside the six known ones\<close>

lemma get_property_unknown:
  assumes "key \<notin> fst ` set literal" "key \<notin> set object_prototype_names"
  shows "get_property literal key = None"
proof -
  from assms(1) have "map_of literal key = None"
    by (simp add: map_of_eq_None_iff)
  with assms(2) show ?thesis by (simp add: get_property_def)
qed

lemma get_property_inherited:
  assumes "key \<notin> fst ` set literal" "key \<in> set object_prototype_names"
  shows "get_property literal key = Some (JProto key)"
proof -
  from assms(1) have "map_of literal key = None"
    by (simp add: map_of_eq_None_iff)
  with assms(2) show ?thesis by (simp add: get_property_def)
qed

lemma getDefaultProperties_other:
  assumes "type \<notin> {''state'', ''action'', ''condition'', ''event''}"
  shows "getDefaultProperties now type =
           [(''id'', JNum now), (''name'', getNodeTitle type),
            (''description'', JStr ''''), (''enabled'', JBool True)]"
  using assms by (simp add: getDefaultProperties_def)

lemma addNode_unknown_kind:
  assumes "type \<notin> {''state'', ''action'', ''condition'', ''event'', ''start'', ''end''}"
    and "type \<notin> set object_prototype_names"
  shows "heap (addNode now now' type x y ed) (next_ref ed) =
           \<lparr> n_id = now, n_type = type, n_x = x, n_y = y, n_width = 120, n_height = 80,
             n_title = JStr title_fallback, n_color = JStr ''#95a5a6'',
             n_properties = [(''id'', JNum now'), (''name'', JStr title_fallback),
                             (''description'', JStr ''''), (''enabled'', JBool True)] \<rparr>"
proof -
  from assms(1) have k: "type \<notin> fst ` set titles" "type \<notin> fst ` set colors"
    by (auto simp: titles_def colors_def)
  have t: "getNodeTitle type = JStr title_fallback"
    by (simp add: getNodeTitle_def get_property_unknown[OF k(1) assms(2)] or_else_def)
  have c: "getNodeColor type = JStr ''#95a5a6''"
    by (simp add: getNodeColor_def get_property_unknown[OF k(2) assms(2)] or_else_def)
  from assms(1) have p: "getDefaultProperties now' type =
           [(''id'', JNum now'), (''name'', JStr title_fallback),
            (''description'', JStr ''''), (''enabled'', JBool True)]"
    by (simp add: getDefaultProperties_other t)
  show ?thesis by (simp add: addNode_heap t c p)
qed

lemma addNode_inherited_kind:
  assumes "type \<in> set object_prototype_names"
  shows "heap (addNode now now' type x y ed) (next_ref ed) =
           \<lparr> n_id = now, n_type = type, n_x = x, n_y = y, n_width = 120, n_height = 80,
             n_title = JProto type, n_color = JProto type,
             n_properties = [(''id'', JNum now'), (''name'', JProto type),
                             (''description'', JStr ''''), (''enabled'', JBool True)] \<rparr>"
proof -
  from assms have k: "type \<notin> fst ` set titles" "type \<notin> fst ` set colors"
    and o: "type \<notin> {''state'', ''action'', ''condition'', ''event''}"
    by (auto simp: titles_def colors_def object_prototype_names_def)
  have t: "getNodeTitle type = JProto type"
    by (simp add: getNodeTitle_def get_property_inherited[OF k(1) assms] or_else_def)
  have c: "getNodeColor type = JProto type"
    by (simp add: getNodeColor_def get_property_inherited[OF k(2) assms] or_else_def)
  show ?thesis by (simp add: addNode_heap t c getDefaultProperties_other[OF o])
qed

text \<open>
  C9. For a kind that is neither one of the six nor the name of a member of
  Object.prototype, the new node has the fallback title and color, size 120 by 80 and
  the four base properties (addNode_unknown_kind). For a kind that names a member of
  Object.prototype the lookups \<open>titles[type]\<close> and \<open>colors[type]\<close> find the inherited
  member, which is truthy, and the fallbacks are not taken (addNode_inherited_kind);
  the theorem evaluates addNode at the kind constructor.
\<close>

theorem addNode_constructor_kind:
  "getNodeTitle ''constructor'' = JProto ''constructor'' \<and>
   getNodeColor ''constructor'' = JProto ''constructor'' \<and>
   n_title (heap (addNode 1700000000000 1700000000000 ''constructor'' 0 0 new_editor) 0)
     \<noteq> JStr title_fallback \<and>
   n_color (heap (addNode 1700000000000 1700000000000 ''constructor'' 0 0 new_editor) 0)
     \<noteq> JStr ''#95a5a6'' \<and>
   map fst (n_properties
     (heap (addNode 1700000000000 1700000000000 ''constructor'' 0 0 new_editor) 0)) =
     [''id'', ''name'', ''description'', ''enabled'']"
proof -
  have m: "''constructor'' \<in> set object_prototype_names"
    by (simp add: object_prototype_names_def)
  have k: "''constructor'' \<notin> fst ` set titles" "''constructor'' \<notin> fst ` set colors"
    by (simp_all add: titles_def colors_def)
  have t: "getNodeTitle ''constructor'' = JProto ''constructor''"
    by (simp add: getNodeTitle_def get_property_inherited[OF k(1) m] or_else_def)
  have c: "getNodeColor ''constructor'' = JProto ''constructor''"
    by (simp add: getNodeColor_def get_property_inherited[OF k(2) m] or_else_def)
  show ?thesis
    by (simp add: t c addNode_heap new_editor_fields getDefaultProperties_def)
qed

end
